theory Spec2Isabelle
  imports Main
begin

section \<open>The data model of \<^verbatim>\<open>src/forms.js\<close>\<close>

text \<open>
  The module binds one DOM form to a remote endpoint. Everything it does is an effect on
  the DOM or a call of a hook, so the embedding threads an explicit world (the DOM) and
  records every call the module makes in a trace. A JavaScript exception is a value:
  an effect returns \<open>Some e\<close> when it throws \<open>e\<close> and \<open>None\<close> when it returns.
\<close>

datatype exn = Error string | TypeError string | DOMException string

subsection \<open>The DOM\<close>

text \<open>
  Elements live in a store and are named by a reference, because the form is shared
  between the configuration, its parent node and the document. Of an element the
  model keeps what the module reads or writes: the tag name, the parent link and the
  parent's child list (\<^verbatim>\<open>replaceChild\<close>), the descendant controls with their
  \<^verbatim>\<open>type\<close> attribute and disabled flag, the descendants that carry
  \<^verbatim>\<open>data-sk-error\<close> (in document order, with their field name and their content),
  the entries a \<^verbatim>\<open>FormData\<close> collects, the submit listeners, and the string the
  element converts to.
\<close>

type_synonym ref = nat

datatype node = ElementRef ref | Created string "(string \<times> string) list" string

record control =
  ctype :: string
  disabled :: bool

record slot =
  skError :: string
  innerHTML :: string

record element =
  tagName :: string
  parentNode :: "ref option"
  childNodes :: "node list"
  controls :: "control list"
  slots :: "slot list"
  formEntries :: "(string \<times> string) list"
  submitListeners :: "string list"
  stringOf :: string

record world =
  elements :: "ref \<Rightarrow> element"
  querySelector :: "string \<Rightarrow> exn + ref option"

type_synonym effect = "world \<Rightarrow> exn option \<times> world"

subsection \<open>Field errors, the submission result and the request\<close>

record field_error =
  field :: string
  code :: string
  message :: string

record body =
  errors :: "field_error list"
  payload :: "(string \<times> string) list"

record response =
  status :: int

record result =
  response :: response
  body :: body

record request =
  req_id :: string
  req_endpoint :: string
  req_data :: "(string \<times> string) list"

text \<open>
  The HTTP client is an external collaborator. Its asynchronous \<^verbatim>\<open>submitForm\<close>
  either resolves with a result or rejects with an error; whatever happens to the DOM
  while the call is awaited is part of its effect on the world.
\<close>

record client =
  submitForm :: "request \<Rightarrow> world \<Rightarrow> (exn + result) \<times> world"

subsection \<open>The configuration\<close>

text \<open>
  \<^verbatim>\<open>config.fields\<close> maps a field name to its display metadata; both members of an
  entry are optional. Objects are read as maps of their own properties.
\<close>

record field_config =
  prettyName :: "string option"
  errorMessages :: "(string \<rightharpoonup> string) option"

text \<open>
  Every hook is called with the configuration. A HOL record cannot hold functions of
  its own type, so the configuration is a record \<open>settings\<close> of its data members,
  extended by the function-valued members, and a hook receives the \<open>settings\<close> part.
  The members are prefixed \<open>cfg_\<close>: \<open>cfg_enable config\<close> is \<^verbatim>\<open>config.enable\<close>,
  while \<open>enable\<close> below is the module's own default.
\<close>

record settings =
  cfg_id :: string
  cfg_form :: ref
  cfg_endpoint :: string
  cfg_fields :: "string \<rightharpoonup> field_config"
  cfg_h :: "string \<Rightarrow> (string \<times> string) list \<Rightarrow> string \<Rightarrow> node"

datatype data_value = Literal string | Function "settings \<Rightarrow> world \<Rightarrow> exn + string"

datatype js_value =
    Undefined
  | Null
  | Str string
  | Num int
  | Object "(string \<times> data_value) list"

record config = settings +
  cfg_data :: js_value
  cfg_onInit :: "settings \<Rightarrow> effect"
  cfg_onSubmit :: "settings \<Rightarrow> effect"
  cfg_onSuccess :: "settings \<Rightarrow> body \<Rightarrow> effect"
  cfg_onError :: "settings \<Rightarrow> field_error list \<Rightarrow> effect"
  cfg_onFailure :: "settings \<Rightarrow> exn \<Rightarrow> effect"
  cfg_enable :: "settings \<Rightarrow> effect"
  cfg_disable :: "settings \<Rightarrow> effect"
  cfg_renderErrors :: "settings \<Rightarrow> field_error list \<Rightarrow> effect"

subsection \<open>The trace of calls\<close>

text \<open>
  One event for each call the module makes. \<open>OnFailure\<close> stands for a call of
  \<^verbatim>\<open>config.onFailure\<close>, \<open>ModuleOnFailure\<close> for a call of the constant
  \<^verbatim>\<open>onFailure\<close> declared at the top of the module.
\<close>

datatype event =
    RenderErrors "field_error list"
  | Disable
  | OnSubmit
  | SubmitForm request
  | OnSuccess body
  | OnError "field_error list"
  | OnFailure exn
  | ModuleOnFailure exn
  | Enable
  | AddEventListener ref
  | OnInit

record st =
  world :: world
  trace :: "event list"

type_synonym action = "st \<Rightarrow> exn option \<times> st"

definition call :: "event \<Rightarrow> effect \<Rightarrow> action" where
  "call ev f s =
     (case f (world s) of (r, w') \<Rightarrow> (r, \<lparr>world = w', trace = trace s @ [ev]\<rparr>))"

text \<open>Statement sequencing: the second statement runs only when the first returns.\<close>

definition andThen :: "action \<Rightarrow> action \<Rightarrow> action" where
  "andThen f g s = (case f s of (Some e, s') \<Rightarrow> (Some e, s') | (None, s') \<Rightarrow> g s')"

text \<open>
  \<^verbatim>\<open>try { body } catch (e) { handler } finally { final }\<close>: the final block always
  runs; an exception of the handler propagates after it, one of the final block
  replaces any other.
\<close>

definition tryCatchFinally :: "action \<Rightarrow> (exn \<Rightarrow> action) \<Rightarrow> action \<Rightarrow> action" where
  "tryCatchFinally body' handler final s =
     (case body' s of
        (None, s1) \<Rightarrow> final s1
      | (Some e, s1) \<Rightarrow>
          (case handler e s1 of
             (None, s2) \<Rightarrow> final s2
           | (Some e', s2) \<Rightarrow>
               (case final s2 of
                  (None, s3) \<Rightarrow> (Some e', s3)
                | (Some e'', s3) \<Rightarrow> (Some e'', s3))))"

section \<open>The default hooks\<close>

definition updateForm :: "ref \<Rightarrow> (element \<Rightarrow> element) \<Rightarrow> world \<Rightarrow> world" where
  "updateForm r f w = w\<lparr>elements := (elements w)(r := f (elements w r))\<rparr>"

definition onInit :: "'a settings_scheme \<Rightarrow> effect" where
  "onInit config w = (None, w)"

definition onSubmit :: "'a settings_scheme \<Rightarrow> effect" where
  "onSubmit config w = (None, w)"

text \<open>
  \<^verbatim>\<open>parent.replaceChild(replacement, form)\<close>: the DOM raises when \<open>form\<close> is not a
  child of \<open>parent\<close>; otherwise the replacement takes the form's place and the form
  loses its parent.
\<close>

fun replaceFirst :: "node \<Rightarrow> node \<Rightarrow> node list \<Rightarrow> node list" where
  "replaceFirst old new [] = []"
| "replaceFirst old new (n # ns) =
     (if n = old then new # ns else n # replaceFirst old new ns)"

definition replaceChild :: "ref \<Rightarrow> node \<Rightarrow> ref \<Rightarrow> effect" where
  "replaceChild parent replacement old w =
     (if ElementRef old \<in> set (childNodes (elements w parent))
      then (None,
            updateForm old (\<lambda>el. el\<lparr>parentNode := None\<rparr>)
              (updateForm parent
                 (\<lambda>el. el\<lparr>childNodes := replaceFirst (ElementRef old) replacement (childNodes el)\<rparr>)
                 w))
      else (Some (DOMException ''NotFoundError''), w))"

text \<open>
  The default success callback. \<^verbatim>\<open>form.parentNode\<close> is null for a detached form,
  and reading \<^verbatim>\<open>replaceChild\<close> of null is a TypeError.
\<close>

definition onSuccess :: "'a settings_scheme \<Rightarrow> body \<Rightarrow> effect" where
  "onSuccess config resp w =
     (let replacement = cfg_h config ''div'' [] ''Thank you!'' in
      case parentNode (elements w (cfg_form config)) of
        None \<Rightarrow> (Some (TypeError ''Cannot read properties of null''), w)
      | Some parent \<Rightarrow> replaceChild parent replacement (cfg_form config) w)"

definition onError :: "'a settings_scheme \<Rightarrow> field_error list \<Rightarrow> effect" where
  "onError config errs w = (None, w)"

definition onFailure :: "'a settings_scheme \<Rightarrow> exn \<Rightarrow> effect" where
  "onFailure config e w = (None, w)"

text \<open>The default enable hook: every disabled control of type submit is enabled.\<close>

definition enable :: "'a settings_scheme \<Rightarrow> effect" where
  "enable config w =
     (None,
      updateForm (cfg_form config)
        (\<lambda>el. el\<lparr>controls :=
           map (\<lambda>button. if ctype button = ''submit'' \<and> disabled button
                          then button\<lparr>disabled := False\<rparr> else button)
               (controls el)\<rparr>) w)"

text \<open>The default disable hook: every enabled control of type submit is disabled.\<close>

definition disable :: "'a settings_scheme \<Rightarrow> effect" where
  "disable config w =
     (None,
      updateForm (cfg_form config)
        (\<lambda>el. el\<lparr>controls :=
           map (\<lambda>button. if ctype button = ''submit'' \<and> \<not> disabled button
                          then button\<lparr>disabled := True\<rparr> else button)
               (controls el)\<rparr>) w)"

subsection \<open>The default error renderer\<close>

text \<open>
  What the renderer takes from outside the module: \<^verbatim>\<open>toCamel\<close>, imported from
  \<^verbatim>\<open>./utils\<close>, which is not part of the source given; the platform's
  \<^verbatim>\<open>String.prototype.toLowerCase\<close>, which is aware of Unicode; and the members that
  every plain object inherits from \<^verbatim>\<open>Object.prototype\<close> (\<^verbatim>\<open>constructor\<close>,
  \<^verbatim>\<open>toString\<close> and the others), each with the text it converts to. All three are
  parameters of the model.
\<close>

record platform =
  toCamel :: "string \<Rightarrow> string"
  toLowerCase :: "string \<Rightarrow> string"
  inherited :: "string \<rightharpoonup> string"

text \<open>
  A property read \<^verbatim>\<open>object[key]\<close> on a plain object of strings: the object's own
  entry, or else the member inherited under that name, or else undefined (\<open>None\<close>).
\<close>

datatype member = Own string | Inherited string

definition getMember :: "platform \<Rightarrow> (string \<rightharpoonup> string) \<Rightarrow> string \<Rightarrow> member option" where
  "getMember env object key =
     (case object key of
        Some v \<Rightarrow> Some (Own v)
      | None \<Rightarrow> (case inherited env key of Some t \<Rightarrow> Some (Inherited t) | None \<Rightarrow> None))"

text \<open>\<^verbatim>\<open>a || b\<close> on strings: the empty string is falsy.\<close>

definition orElse :: "string option \<Rightarrow> string \<Rightarrow> string" where
  "orElse a b = (case a of None \<Rightarrow> b | Some s \<Rightarrow> if s = [] then b else s)"

text \<open>
  \<^verbatim>\<open>object[key] || b\<close>: an own empty string is falsy, an inherited member is an
  object or a function, which is truthy, and is shown as its text.
\<close>

definition memberOrElse :: "member option \<Rightarrow> string \<Rightarrow> string" where
  "memberOrElse a b =
     (case a of
        None \<Rightarrow> b
      | Some (Own s) \<Rightarrow> if s = [] then b else s
      | Some (Inherited t) \<Rightarrow> t)"

definition errorFor :: "field_error list \<Rightarrow> string \<Rightarrow> field_error option" where
  "errorFor errs fld = find (\<lambda>error. field error = fld) errs"

text \<open>
  The message for an error. In \<^verbatim>\<open>config.fields[error.field] || {}\<close> a member
  inherited from \<^verbatim>\<open>Object.prototype\<close> is an object with neither
  \<^verbatim>\<open>errorMessages\<close> nor \<^verbatim>\<open>prettyName\<close>, so it reads as the empty object does;
  in \<^verbatim>\<open>errorMessages[code]\<close> it is the value that is rendered.
\<close>

definition fullMessage :: "platform \<Rightarrow> 'a settings_scheme \<Rightarrow> field_error \<Rightarrow> string" where
  "fullMessage env config error =
     (let fieldConfig = (case cfg_fields config (field error) of
                           None \<Rightarrow> \<lparr>prettyName = None, errorMessages = None\<rparr>
                         | Some fc \<Rightarrow> fc);
          errorMessages' = (case errorMessages fieldConfig of
                              None \<Rightarrow> Map.empty | Some m \<Rightarrow> m);
          prefix = orElse (prettyName fieldConfig) ''This field'';
          code' = toCamel env (toLowerCase env (orElse (Some (code error)) ''''))
      in memberOrElse (getMember env errorMessages' code') (prefix @ '' '' @ message error))"

definition renderSlot ::
  "platform \<Rightarrow> 'a settings_scheme \<Rightarrow> field_error list \<Rightarrow> slot \<Rightarrow> slot" where
  "renderSlot env config errs element =
     (case errorFor errs (skError element) of
        None \<Rightarrow> element\<lparr>innerHTML := ''''\<rparr>
      | Some error \<Rightarrow> element\<lparr>innerHTML := fullMessage env config error\<rparr>)"

definition renderErrors ::
  "platform \<Rightarrow> 'a settings_scheme \<Rightarrow> field_error list \<Rightarrow> effect" where
  "renderErrors env config errs w =
     (None,
      updateForm (cfg_form config)
        (\<lambda>el. el\<lparr>slots := map (renderSlot env config errs) (slots el)\<rparr>) w)"

section \<open>Submitting the form\<close>

text \<open>
  \<^verbatim>\<open>new FormData(form)\<close> collects the entries of a form element and raises a
  TypeError for any other element.
\<close>

definition newFormData :: "ref \<Rightarrow> world \<Rightarrow> exn + (string \<times> string) list" where
  "newFormData form w =
     (if tagName (elements w form) = ''FORM''
      then Inr (formEntries (elements w form))
      else Inl (TypeError ''parameter 1 is not of type HTMLFormElement''))"

fun typeof :: "js_value \<Rightarrow> string" where
  "typeof Undefined = ''undefined''"
| "typeof Null = ''object''"
| "typeof (Str s) = ''string''"
| "typeof (Num n) = ''number''"
| "typeof (Object entries) = ''object''"

text \<open>
  The \<^verbatim>\<open>for (const prop in data)\<close> loop: a function is called with the configuration
  and its result appended, any other value is appended as it is. An exception of a
  function leaves the loop and the submit routine.
\<close>

fun appendData ::
  "settings \<Rightarrow> world \<Rightarrow> (string \<times> data_value) list \<Rightarrow> (string \<times> string) list
     \<Rightarrow> exn + (string \<times> string) list" where
  "appendData config w [] formData = Inr formData"
| "appendData config w ((prop, Function f) # rest) formData =
     (case f config w of
        Inl e \<Rightarrow> Inl e
      | Inr v \<Rightarrow> appendData config w rest (formData @ [(prop, v)]))"
| "appendData config w ((prop, Literal v) # rest) formData =
     appendData config w rest (formData @ [(prop, v)])"

definition collectData ::
  "settings \<Rightarrow> js_value \<Rightarrow> world \<Rightarrow> (string \<times> string) list \<Rightarrow> exn + (string \<times> string) list" where
  "collectData config data w formData =
     (if typeof data = ''object''
      then (case data of
              Object entries \<Rightarrow> appendData config w entries formData
            | _ \<Rightarrow> Inr formData)
      else Inr formData)"

definition callSubmitForm :: "client \<Rightarrow> request \<Rightarrow> st \<Rightarrow> (exn + result) \<times> st" where
  "callSubmitForm client req s =
     (case submitForm client req (world s) of
        (r, w') \<Rightarrow> (r, \<lparr>world = w', trace = trace s @ [SubmitForm req]\<rparr>))"

text \<open>
  The body of the \<^verbatim>\<open>try\<close> block: the awaited call and the classification of its
  result.
\<close>

definition attempt :: "client \<Rightarrow> config \<Rightarrow> (string \<times> string) list \<Rightarrow> action" where
  "attempt client config formData s =
     (let c = settings.truncate config in
      case callSubmitForm client
             \<lparr>req_id = cfg_id config, req_endpoint = cfg_endpoint config, req_data = formData\<rparr> s of
        (Inl e, s') \<Rightarrow> (Some e, s')
      | (Inr result, s') \<Rightarrow>
          (if status (response result) = 200
           then call (OnSuccess (body result)) (cfg_onSuccess config c (body result)) s'
           else (let errs = errors (body result) in
                 andThen (call (RenderErrors errs) (cfg_renderErrors config c errs))
                         (call (OnError errs) (cfg_onError config c errs)) s')))"

text \<open>
  The statements of the submit routine before its \<^verbatim>\<open>try\<close> block: the outbound
  data, the clearing of visible errors, the disable hook and the submit hook. None
  of them is guarded, so an exception of any of them leaves the routine. The calls
  of the logger, an external sink, are left out.
\<close>

definition prepare :: "config \<Rightarrow> st \<Rightarrow> (exn + (string \<times> string) list) \<times> st" where
  "prepare config s =
     (let c = settings.truncate config in
      case newFormData (cfg_form config) (world s) of
        Inl e \<Rightarrow> (Inl e, s)
      | Inr formData0 \<Rightarrow>
          (case collectData c (cfg_data config) (world s) formData0 of
             Inl e \<Rightarrow> (Inl e, s)
           | Inr formData \<Rightarrow>
               (case andThen (call (RenderErrors []) (cfg_renderErrors config c []))
                    (andThen (call Disable (cfg_disable config c))
                             (call OnSubmit (cfg_onSubmit config c))) s of
                  (Some e, s1) \<Rightarrow> (Inl e, s1)
                | (None, s1) \<Rightarrow> (Inr formData, s1))))"

text \<open>
  The submit routine. The destructuring at its head takes \<^verbatim>\<open>id\<close>, \<^verbatim>\<open>form\<close>,
  \<^verbatim>\<open>enable\<close>, \<^verbatim>\<open>disable\<close>, \<^verbatim>\<open>renderErrors\<close>, \<^verbatim>\<open>onSubmit\<close>, \<^verbatim>\<open>onSuccess\<close>,
  \<^verbatim>\<open>onError\<close>, \<^verbatim>\<open>endpoint\<close> and \<^verbatim>\<open>data\<close> from the configuration, and not
  \<^verbatim>\<open>onFailure\<close>: the name in the \<^verbatim>\<open>catch\<close> block is the module's constant.
  The result \<open>None\<close> is a promise that resolves, \<open>Some e\<close> one that rejects with \<open>e\<close>.
\<close>

definition submit :: "client \<Rightarrow> config \<Rightarrow> action" where
  "submit client config s =
     (let c = settings.truncate config in
      case prepare config s of
        (Inl e, s1) \<Rightarrow> (Some e, s1)
      | (Inr formData, s1) \<Rightarrow>
          tryCatchFinally
            (attempt client config formData)
            (\<lambda>e. call (ModuleOnFailure e) (onFailure c e))
            (call Enable (cfg_enable config c)) s1)"

section \<open>Binding\<close>

text \<open>
  \<^verbatim>\<open>h\<close> is the element constructor of the hyperscript library: a new element with a
  tag, attributes and a text child.
\<close>

definition h :: "string \<Rightarrow> (string \<times> string) list \<Rightarrow> string \<Rightarrow> node" where
  "h tag attrs txt = Created tag attrs txt"

text \<open>
  The default configuration, with the \<^verbatim>\<open>id\<close> and the \<^verbatim>\<open>form\<close> that
  \<^verbatim>\<open>Object.assign\<close> adds to it in \<^verbatim>\<open>init\<close>.
\<close>

definition defaults :: "platform \<Rightarrow> string \<Rightarrow> ref \<Rightarrow> config" where
  "defaults env ident form =
     \<lparr>cfg_id = ident,
      cfg_form = form,
      cfg_endpoint = ''https://api.statickit.com'',
      cfg_fields = Map.empty,
      cfg_h = h,
      cfg_data = Object [],
      cfg_onInit = onInit,
      cfg_onSubmit = onSubmit,
      cfg_onSuccess = onSuccess,
      cfg_onError = onError,
      cfg_onFailure = onFailure,
      cfg_enable = enable,
      cfg_disable = disable,
      cfg_renderErrors = renderErrors env\<rparr>"

datatype element_arg = ElementArg ref | SelectorArg string

text \<open>The options a caller passes to \<^verbatim>\<open>init\<close>; an absent property is \<open>None\<close>.\<close>

record props =
  props_id :: "string option"
  props_element :: "element_arg option"
  props_endpoint :: "string option"
  props_fields :: "(string \<rightharpoonup> field_config) option"
  props_h :: "(string \<Rightarrow> (string \<times> string) list \<Rightarrow> string \<Rightarrow> node) option"
  props_data :: "js_value option"
  props_onInit :: "(settings \<Rightarrow> effect) option"
  props_onSubmit :: "(settings \<Rightarrow> effect) option"
  props_onSuccess :: "(settings \<Rightarrow> body \<Rightarrow> effect) option"
  props_onError :: "(settings \<Rightarrow> field_error list \<Rightarrow> effect) option"
  props_onFailure :: "(settings \<Rightarrow> exn \<Rightarrow> effect) option"
  props_enable :: "(settings \<Rightarrow> effect) option"
  props_disable :: "(settings \<Rightarrow> effect) option"
  props_renderErrors :: "(settings \<Rightarrow> field_error list \<Rightarrow> effect) option"

definition override :: "'a option \<Rightarrow> 'a \<Rightarrow> 'a" where
  "override p d = (case p of None \<Rightarrow> d | Some v \<Rightarrow> v)"

text \<open>\<^verbatim>\<open>Object.assign({}, defaults, props, { form })\<close>.\<close>

definition assign :: "config \<Rightarrow> props \<Rightarrow> config" where
  "assign d props =
     \<lparr>cfg_id = cfg_id d,
      cfg_form = cfg_form d,
      cfg_endpoint = override (props_endpoint props) (cfg_endpoint d),
      cfg_fields = override (props_fields props) (cfg_fields d),
      cfg_h = override (props_h props) (cfg_h d),
      cfg_data = override (props_data props) (cfg_data d),
      cfg_onInit = override (props_onInit props) (cfg_onInit d),
      cfg_onSubmit = override (props_onSubmit props) (cfg_onSubmit d),
      cfg_onSuccess = override (props_onSuccess props) (cfg_onSuccess d),
      cfg_onError = override (props_onError props) (cfg_onError d),
      cfg_onFailure = override (props_onFailure props) (cfg_onFailure d),
      cfg_enable = override (props_enable props) (cfg_enable d),
      cfg_disable = override (props_disable props) (cfg_disable d),
      cfg_renderErrors = override (props_renderErrors props) (cfg_renderErrors d)\<rparr>"

text \<open>
  \<^verbatim>\<open>form.addEventListener('submit', ...)\<close>; the listener is kept as the identifier of
  the configuration it submits.
\<close>

definition addEventListener :: "ref \<Rightarrow> string \<Rightarrow> action" where
  "addEventListener form ident s =
     (None,
      \<lparr>world = updateForm form
                 (\<lambda>el. el\<lparr>submitListeners := submitListeners el @ [ident]\<rparr>) (world s),
       trace = trace s @ [AddEventListener form]\<rparr>)"

definition setup_form :: "client \<Rightarrow> config \<Rightarrow> action" where
  "setup_form client config =
     (let c = settings.truncate config in
      andThen (addEventListener (cfg_form config) (cfg_id config))
     (andThen (call Enable (cfg_enable config c))
              (call OnInit (cfg_onInit config c))))"

text \<open>
  Look up the form element by selector or accept the given element. A string has no
  \<^verbatim>\<open>tagName\<close>; an element that is not a form is converted to a string and looked up
  as a selector.
\<close>

definition getFormElement :: "world \<Rightarrow> element_arg \<Rightarrow> exn + ref option" where
  "getFormElement w nodeOrSelector =
     (case nodeOrSelector of
        ElementArg r \<Rightarrow>
          (if tagName (elements w r) = ''FORM'' then Inr (Some r)
           else querySelector w (stringOf (elements w r)))
      | SelectorArg sel \<Rightarrow> querySelector w sel)"

fun truthy :: "element_arg \<Rightarrow> bool" where
  "truthy (ElementArg r) = True"
| "truthy (SelectorArg sel) = (sel \<noteq> [])"

fun describe :: "world \<Rightarrow> element_arg \<Rightarrow> string" where
  "describe w (ElementArg r) = stringOf (elements w r)"
| "describe w (SelectorArg sel) = sel"

definition init :: "platform \<Rightarrow> client \<Rightarrow> props \<Rightarrow> action" where
  "init env client props s =
     (case props_id props of
        None \<Rightarrow> (Some (Error ''You must define an `id` property''), s)
      | Some ident \<Rightarrow>
          if ident = [] then (Some (Error ''You must define an `id` property''), s)
          else
            (case props_element props of
               None \<Rightarrow> (Some (Error ''You must define an `element` property''), s)
             | Some el \<Rightarrow>
                 if \<not> truthy el
                 then (Some (Error ''You must define an `element` property''), s)
                 else
                   (case getFormElement (world s) el of
                      Inl e \<Rightarrow> (Some e, s)
                    | Inr None \<Rightarrow>
                        (Some (Error (''Element `'' @ describe (world s) el @ ''` not found'')), s)
                    | Inr (Some form) \<Rightarrow>
                        setup_form client (assign (defaults env ident form) props) s)))"

section \<open>The renderer in the words of its contract\<close>

text \<open>The key of a custom message: the lower-cased, then camel-cased error code.\<close>

definition messageKey :: "platform \<Rightarrow> field_error \<Rightarrow> string" where
  "messageKey env error = toCamel env (toLowerCase env (code error))"

text \<open>
  The custom message configured for an error: the entry of the field's
  \<^verbatim>\<open>errorMessages\<close> under that key.
\<close>

definition configuredMessage ::
  "platform \<Rightarrow> 'a settings_scheme \<Rightarrow> field_error \<Rightarrow> string option" where
  "configuredMessage env config error =
     (case cfg_fields config (field error) of
        None \<Rightarrow> None
      | Some fc \<Rightarrow>
          (case errorMessages fc of
             None \<Rightarrow> None
           | Some msgs \<Rightarrow> msgs (messageKey env error)))"

text \<open>The \<^verbatim>\<open>prettyName\<close> configured for the field of an error.\<close>

definition configuredPrettyName :: "'a settings_scheme \<Rightarrow> field_error \<Rightarrow> string option" where
  "configuredPrettyName config error =
     (case cfg_fields config (field error) of None \<Rightarrow> None | Some fc \<Rightarrow> prettyName fc)"

text \<open>
  The message the contract falls back on: the configured \<^verbatim>\<open>prettyName\<close>, or
  \<^verbatim>\<open>This field\<close> when there is none or an empty one, a space and the error's message.
\<close>

definition fallbackMessage :: "'a settings_scheme \<Rightarrow> field_error \<Rightarrow> string" where
  "fallbackMessage config error =
     (case configuredPrettyName config error of
        None \<Rightarrow> ''This field''
      | Some p \<Rightarrow> if p = [] then ''This field'' else p) @ '' '' @ message error"

section \<open>A page, three clients and some configurations\<close>

text \<open>
  A page whose element 0 is a form with one enabled submit button, one error slot for
  \<^verbatim>\<open>email\<close> and one entry, inside the element 1, a \<^verbatim>\<open>div\<close>.
\<close>

definition exampleForm :: element where
  "exampleForm =
     \<lparr>tagName = ''FORM'', parentNode = Some 1, childNodes = [],
      controls = [\<lparr>ctype = ''submit'', disabled = False\<rparr>],
      slots = [\<lparr>skError = ''email'', innerHTML = ''''\<rparr>],
      formEntries = [(''email'', ''ada'')],
      submitListeners = [], stringOf = ''[object HTMLFormElement]''\<rparr>"

definition exampleDiv :: element where
  "exampleDiv =
     \<lparr>tagName = ''DIV'', parentNode = None, childNodes = [ElementRef 0],
      controls = [\<lparr>ctype = ''submit'', disabled = False\<rparr>],
      slots = [\<lparr>skError = ''email'', innerHTML = ''''\<rparr>],
      formEntries = [],
      submitListeners = [], stringOf = ''[object HTMLDivElement]''\<rparr>"

definition exampleWorld :: world where
  "exampleWorld =
     \<lparr>elements = (\<lambda>r. if r = 0 then exampleForm else exampleDiv),
      querySelector = (\<lambda>sel. if sel = ''#f1'' then Inr (Some 0)
                              else if sel = ''#box'' then Inr (Some 1)
                              else Inr None)\<rparr>"

definition exampleState :: st where
  "exampleState = \<lparr>world = exampleWorld, trace = []\<rparr>"

definition exampleErrors :: "field_error list" where
  "exampleErrors = [\<lparr>field = ''email'', code = ''INVALID'', message = ''is invalid''\<rparr>]"

definition resolving :: "int \<Rightarrow> field_error list \<Rightarrow> client" where
  "resolving n errs =
     \<lparr>submitForm = (\<lambda>req w.
        (Inr \<lparr>response = \<lparr>status = n\<rparr>, body = \<lparr>errors = errs, payload = []\<rparr>\<rparr>, w))\<rparr>"

definition rejecting :: "exn \<Rightarrow> client" where
  "rejecting e = \<lparr>submitForm = (\<lambda>req w. (Inl e, w))\<rparr>"

definition exampleProps :: props where
  "exampleProps =
     \<lparr>props_id = Some ''f1'', props_element = Some (ElementArg 0),
      props_endpoint = None, props_fields = None, props_h = None, props_data = None,
      props_onInit = None, props_onSubmit = None, props_onSuccess = None,
      props_onError = None, props_onFailure = None, props_enable = None,
      props_disable = None, props_renderErrors = None\<rparr>"

definition exampleFields :: "string \<rightharpoonup> field_config" where
  "exampleFields =
     [''email'' \<mapsto>
        \<lparr>prettyName = Some ''Email'',
         errorMessages = Some [''invalid'' \<mapsto> ''Please check the address'']\<rparr>]"

text \<open>
  A platform for the examples: lower-casing of the ASCII letters, which is all that the
  codes below hold, a \<^verbatim>\<open>toCamel\<close> that leaves a code without separators as it is,
  and the members of \<^verbatim>\<open>Object.prototype\<close> with the text a browser shows for them.
\<close>

definition lowerChar :: "char \<Rightarrow> char" where
  "lowerChar c =
     (case map_of (zip ''ABCDEFGHIJKLMNOPQRSTUVWXYZ'' ''abcdefghijklmnopqrstuvwxyz'') c of
        None \<Rightarrow> c
      | Some l \<Rightarrow> l)"

definition examplePlatform :: platform where
  "examplePlatform =
     \<lparr>toCamel = (\<lambda>s. s),
      toLowerCase = map lowerChar,
      inherited = map_of
        [(''constructor'', ''function Object() { [native code] }''),
         (''hasOwnProperty'', ''function hasOwnProperty() { [native code] }''),
         (''isPrototypeOf'', ''function isPrototypeOf() { [native code] }''),
         (''propertyIsEnumerable'', ''function propertyIsEnumerable() { [native code] }''),
         (''toLocaleString'', ''function toLocaleString() { [native code] }''),
         (''toString'', ''function toString() { [native code] }''),
         (''valueOf'', ''function valueOf() { [native code] }''),
         (''__defineGetter__'', ''function __defineGetter__() { [native code] }''),
         (''__defineSetter__'', ''function __defineSetter__() { [native code] }''),
         (''__lookupGetter__'', ''function __lookupGetter__() { [native code] }''),
         (''__lookupSetter__'', ''function __lookupSetter__() { [native code] }''),
         (''__proto__'', ''[object Object]'')]\<rparr>"

text \<open>An error whose code names an inherited member, and a custom message that is empty.\<close>

definition constructorErrors :: "field_error list" where
  "constructorErrors =
     [\<lparr>field = ''email'', code = ''CONSTRUCTOR'', message = ''is invalid''\<rparr>]"

definition emptyMessageFields :: "string \<rightharpoonup> field_config" where
  "emptyMessageFields =
     [''email'' \<mapsto> \<lparr>prettyName = None, errorMessages = Some [''invalid'' \<mapsto> '''']\<rparr>]"

text \<open>The configuration that \<^verbatim>\<open>init\<close> builds from options, for the form 0.\<close>

definition configured :: "props \<Rightarrow> config" where
  "configured props = assign (defaults examplePlatform ''f1'' 0) props"

text \<open>Extra data: a literal and a function of the configuration.\<close>

definition exampleData :: js_value where
  "exampleData =
     Object [(''source'', Literal ''web''), (''ref'', Function (\<lambda>config w. Inr (cfg_id config)))]"

text \<open>A failure hook that writes into every error slot of the form.\<close>

definition noteFailure :: "settings \<Rightarrow> exn \<Rightarrow> effect" where
  "noteFailure config e w =
     (None,
      updateForm (cfg_form config)
        (\<lambda>el. el\<lparr>slots := map (\<lambda>sl. sl\<lparr>innerHTML := ''failed''\<rparr>) (slots el)\<rparr>) w)"

text \<open>Hooks that throw.\<close>

definition throwing :: "settings \<Rightarrow> effect" where
  "throwing config w = (Some (Error ''boom''), w)"

definition throwingOnSuccess :: "settings \<Rightarrow> body \<Rightarrow> effect" where
  "throwingOnSuccess config resp w = (Some (Error ''boom''), w)"

text \<open>
  An error renderer that clears nothing and throws when it is given errors, a
  validation-error hook that throws, and an enable hook that throws.
\<close>

definition throwingRenderer :: "settings \<Rightarrow> field_error list \<Rightarrow> effect" where
  "throwingRenderer config errs w = (if errs = [] then (None, w) else (Some (Error ''boom''), w))"

definition throwingOnError :: "settings \<Rightarrow> field_error list \<Rightarrow> effect" where
  "throwingOnError config errs w = (Some (Error ''boom''), w)"

definition failingEnable :: "settings \<Rightarrow> effect" where
  "failingEnable config w = (Some (Error ''fin''), w)"

section \<open>Properties of the default error renderer\<close>

lemma renderSlot_idem:
  "renderSlot tc config errs (renderSlot tc config errs sl) = renderSlot tc config errs sl"
  by (simp add: renderSlot_def split: option.splits)

lemma renderSlot_Nil: "innerHTML (renderSlot tc config [] sl) = ''''"
  by (simp add: renderSlot_def errorFor_def)

text \<open>
  Claim C7. The default error renderer is idempotent: called a second time with the
  same error list it returns normally again and leaves the world exactly as the first
  call left it. Called with the empty list after a call with any list, it leaves
  every error slot of the form with empty content.
\<close>

theorem renderErrors_idempotent:
  "renderErrors tc config errs (snd (renderErrors tc config errs w)) =
     renderErrors tc config errs w
   \<and> map innerHTML
         (slots (elements (snd (renderErrors tc config [] (snd (renderErrors tc config errs w))))
                   (cfg_form config)))
       = replicate (length (slots (elements w (cfg_form config)))) ''''"
  by (simp add: renderErrors_def updateForm_def renderSlot_idem renderSlot_Nil
        map_replicate_const comp_def)

lemma orElse_Some: "orElse (Some c) '''' = c"
  by (simp add: orElse_def)

lemma fullMessage_spec:
  "fullMessage env config error =
     (case configuredMessage env config error of
        Some m \<Rightarrow> if m = [] then fallbackMessage config error else m
      | None \<Rightarrow>
          (case inherited env (messageKey env error) of
             Some t \<Rightarrow> t
           | None \<Rightarrow> fallbackMessage config error))"
  by (simp add: fullMessage_def configuredMessage_def configuredPrettyName_def
        fallbackMessage_def messageKey_def getMember_def memberOrElse_def Let_def
        orElse_Some orElse_def split: option.splits)

text \<open>
  Claim C5, as amended. The default error renderer returns normally and treats every
  error slot of the form on its own (slot \<open>i\<close> keeps its field name). It takes the
  first error of the list whose field equals the slot's field name: the error at the
  least such index. Without one the slot's content becomes empty. With one, the
  renderer reads the field's \<^verbatim>\<open>errorMessages\<close> at the lower-cased, then camel-cased
  error code. A message configured there and not empty is the content. When none, or
  an empty one, is configured and the key is not the name of a member inherited from
  \<^verbatim>\<open>Object.prototype\<close>, the content is the field's \<^verbatim>\<open>prettyName\<close>, or
  \<^verbatim>\<open>This field\<close> when that is not configured or empty, followed by a space and the
  error's message. (When nothing is configured under a key that names an inherited
  member, the read finds that member and its text is the content.)
\<close>

theorem renderErrors_slot:
  assumes "i < length (slots (elements w (cfg_form config)))"
  shows "fst (renderErrors env config errs w) = None \<and>
    length (slots (elements (snd (renderErrors env config errs w)) (cfg_form config))) =
      length (slots (elements w (cfg_form config))) \<and>
    (let sl = slots (elements w (cfg_form config)) ! i;
         sl' = slots (elements (snd (renderErrors env config errs w)) (cfg_form config)) ! i
     in skError sl' = skError sl \<and>
        (case find (\<lambda>error. field error = skError sl) errs of
           None \<Rightarrow> innerHTML sl' = ''''
         | Some error \<Rightarrow>
             (\<exists>k<length errs. errs ! k = error \<and> (\<forall>j<k. field (errs ! j) \<noteq> skError sl)) \<and>
             innerHTML sl' =
               (case configuredMessage env config error of
                  Some m \<Rightarrow> if m = [] then fallbackMessage config error else m
                | None \<Rightarrow>
                    (case inherited env (messageKey env error) of
                       Some t \<Rightarrow> t
                     | None \<Rightarrow> fallbackMessage config error))))"
proof -
  let ?sl = "slots (elements w (cfg_form config)) ! i"
  have sl': "slots (elements (snd (renderErrors env config errs w)) (cfg_form config)) ! i =
      renderSlot env config errs ?sl"
    using assms by (simp add: renderErrors_def updateForm_def)
  have first: "\<exists>k<length errs. errs ! k = error \<and> (\<forall>j<k. field (errs ! j) \<noteq> skError ?sl)"
    if "find (\<lambda>error. field error = skError ?sl) errs = Some error" for error
    using that by (auto simp: find_Some_iff)
  have msg: "innerHTML (renderSlot env config errs ?sl) =
      (case configuredMessage env config error of
         Some m \<Rightarrow> if m = [] then fallbackMessage config error else m
       | None \<Rightarrow>
           (case inherited env (messageKey env error) of
              Some t \<Rightarrow> t
            | None \<Rightarrow> fallbackMessage config error))"
    if "find (\<lambda>error. field error = skError ?sl) errs = Some error" for error
    using that by (simp add: renderSlot_def errorFor_def fullMessage_spec)
  have none: "innerHTML (renderSlot env config errs ?sl) = ''''"
    if "find (\<lambda>error. field error = skError ?sl) errs = None"
    using that by (simp add: renderSlot_def errorFor_def)
  have sk: "skError (renderSlot env config errs ?sl) = skError ?sl"
    by (simp add: renderSlot_def split: option.splits)
  have len: "fst (renderErrors env config errs w) = None"
    "length (slots (elements (snd (renderErrors env config errs w)) (cfg_form config))) =
      length (slots (elements w (cfg_form config)))"
    by (simp_all add: renderErrors_def updateForm_def)
  show ?thesis
    unfolding Let_def sl'
    using len sk first msg none
    by (cases "find (\<lambda>error. field error = skError ?sl) errs") simp_all
qed

lemmas example_defs = configured_def assign_def defaults_def override_def exampleProps_def
  exampleState_def exampleWorld_def exampleForm_def exampleDiv_def exampleErrors_def
  exampleFields_def resolving_def rejecting_def settings.truncate_def examplePlatform_def
  constructorErrors_def emptyMessageFields_def

lemmas hook_defs = renderErrors_def renderSlot_def errorFor_def fullMessage_def orElse_def
  getMember_def memberOrElse_def lowerChar_def disable_def enable_def onSubmit_def
  onError_def onFailure_def onInit_def updateForm_def

lemmas prepare_defs = prepare_def newFormData_def collectData_def andThen_def call_def Let_def

theorem renderErrors_slot_witness:
  "innerHTML (slots (elements (snd (renderErrors examplePlatform (configured exampleProps)
       exampleErrors exampleWorld)) 0) ! 0) = ''This field is invalid''
   \<and> innerHTML (slots (elements (snd (renderErrors examplePlatform
       (configured (exampleProps\<lparr>props_fields := Some exampleFields\<rparr>))
       exampleErrors exampleWorld)) 0) ! 0) = ''Please check the address''"
proof -
  have a: "0 < length (slots (elements exampleWorld (cfg_form (configured exampleProps))))"
    by (simp add: example_defs)
  have b: "0 < length (slots (elements exampleWorld
             (cfg_form (configured (exampleProps\<lparr>props_fields := Some exampleFields\<rparr>)))))"
    by (simp add: example_defs)
  from renderErrors_slot [OF a, of examplePlatform exampleErrors]
       renderErrors_slot [OF b, of examplePlatform exampleErrors]
  show ?thesis
    by (simp add: example_defs configuredMessage_def configuredPrettyName_def
          fallbackMessage_def messageKey_def lowerChar_def Let_def)
qed

text \<open>
  The claim C5 as it is written fails twice. With nothing configured and the error
  code \<^verbatim>\<open>CONSTRUCTOR\<close>, the read \<^verbatim>\<open>errorMessages['constructor']\<close> finds the inherited
  function and the slot shows its text, not \<^verbatim>\<open>This field is invalid\<close>. With the
  custom message for \<^verbatim>\<open>invalid\<close> configured as the empty string, the slot shows the
  fallback and not that message.
\<close>

theorem renderErrors_slot_counterexample:
  "innerHTML (slots (elements (snd (renderErrors examplePlatform (configured exampleProps)
       constructorErrors exampleWorld)) 0) ! 0) = ''function Object() { [native code] }''
   \<and> configuredMessage examplePlatform (configured exampleProps) (hd constructorErrors) = None
   \<and> configuredMessage examplePlatform
       (configured (exampleProps\<lparr>props_fields := Some emptyMessageFields\<rparr>))
       (hd exampleErrors) = Some ''''
   \<and> innerHTML (slots (elements (snd (renderErrors examplePlatform
       (configured (exampleProps\<lparr>props_fields := Some emptyMessageFields\<rparr>))
       exampleErrors exampleWorld)) 0) ! 0) = ''This field is invalid''"
  by (simp add: example_defs hook_defs configuredMessage_def messageKey_def Let_def)

section \<open>Properties of the submit routine\<close>

lemma call_trace: "trace (snd (call ev f s)) = trace s @ [ev]"
  by (simp add: call_def split: prod.splits)

lemma call_world: "world (snd (call ev f s)) = snd (f (world s))"
  by (simp add: call_def split: prod.splits)

lemma call_fst: "fst (call ev f s) = fst (f (world s))"
  by (simp add: call_def split: prod.splits)

lemma truncate_simps:
  "cfg_form (settings.truncate config) = cfg_form config"
  "cfg_h (settings.truncate config) = cfg_h config"
  "cfg_fields (settings.truncate config) = cfg_fields config"
  "cfg_id (settings.truncate config) = cfg_id config"
  by (simp_all add: settings.truncate_def)

lemma prepare_trace:
  "prepare config s = (Inr fd, s1) \<Longrightarrow> trace s1 = trace s @ [RenderErrors [], Disable, OnSubmit]"
  by (auto simp: prepare_def Let_def andThen_def call_def
        split: sum.splits prod.splits option.splits)

lemma prepare_fails:
  "prepare config s = (Inl e, s1) \<Longrightarrow>
     \<exists>evs. trace s1 = trace s @ evs \<and> Enable \<notin> set evs \<and> (\<forall>req. SubmitForm req \<notin> set evs)"
  by (auto simp: prepare_def Let_def andThen_def call_def
        split: sum.splits prod.splits option.splits)

lemma submit_unfold:
  "prepare config s = (Inr fd, s1) \<Longrightarrow>
   submit client config s =
     tryCatchFinally (attempt client config fd)
       (\<lambda>e. call (ModuleOnFailure e) (onFailure (settings.truncate config) e))
       (call Enable (cfg_enable config (settings.truncate config))) s1"
  by (simp add: submit_def Let_def)

text \<open>The module's \<^verbatim>\<open>onFailure\<close> does nothing, so the handler only leaves its mark.\<close>

lemma tryCatchFinally_onFailure:
  "tryCatchFinally b (\<lambda>e. call (ModuleOnFailure e) (onFailure c e)) (call Enable en) s1 =
     (case b s1 of
        (None, s2) \<Rightarrow> call Enable en s2
      | (Some e, s2) \<Rightarrow>
          call Enable en \<lparr>world = world s2, trace = trace s2 @ [ModuleOnFailure e]\<rparr>)"
  by (simp add: tryCatchFinally_def call_def onFailure_def split: prod.splits option.splits)

lemma attempt_trace:
  "\<exists>mid. trace (snd (attempt client config fd s1)) =
     trace s1 @
     SubmitForm \<lparr>req_id = cfg_id config, req_endpoint = cfg_endpoint config, req_data = fd\<rparr> # mid
     \<and> Enable \<notin> set mid \<and> Disable \<notin> set mid"
  by (auto simp: attempt_def Let_def andThen_def call_def callSubmitForm_def
        split: sum.splits prod.splits option.splits)

lemma attempt_failure:
  "submitForm client
     \<lparr>req_id = cfg_id config, req_endpoint = cfg_endpoint config, req_data = fd\<rparr> (world s1) =
   (Inr result, w2)
   \<Longrightarrow> status (response result) \<noteq> 200
   \<Longrightarrow> attempt client config fd s1 =
        (case cfg_renderErrors config (settings.truncate config) (errors (body result)) w2 of
           (Some e, w3) \<Rightarrow>
             (Some e,
              \<lparr>world = w3,
               trace = trace s1 @
                 [SubmitForm
                    \<lparr>req_id = cfg_id config, req_endpoint = cfg_endpoint config, req_data = fd\<rparr>,
                  RenderErrors (errors (body result))]\<rparr>)
         | (None, w3) \<Rightarrow>
             (fst (cfg_onError config (settings.truncate config) (errors (body result)) w3),
              \<lparr>world = snd (cfg_onError config (settings.truncate config) (errors (body result)) w3),
               trace = trace s1 @
                 [SubmitForm
                    \<lparr>req_id = cfg_id config, req_endpoint = cfg_endpoint config, req_data = fd\<rparr>,
                  RenderErrors (errors (body result)), OnError (errors (body result))]\<rparr>))"
  by (simp add: attempt_def Let_def callSubmitForm_def andThen_def call_def
        split: prod.splits option.splits)

lemma attempt_success:
  "submitForm client
     \<lparr>req_id = cfg_id config, req_endpoint = cfg_endpoint config, req_data = fd\<rparr> (world s1) =
   (Inr result, w2)
   \<Longrightarrow> status (response result) = 200
   \<Longrightarrow> attempt client config fd s1 =
        (fst (cfg_onSuccess config (settings.truncate config) (body result) w2),
         \<lparr>world = snd (cfg_onSuccess config (settings.truncate config) (body result) w2),
          trace = trace s1 @
            [SubmitForm
               \<lparr>req_id = cfg_id config, req_endpoint = cfg_endpoint config, req_data = fd\<rparr>,
             OnSuccess (body result)]\<rparr>)"
  by (simp add: attempt_def Let_def callSubmitForm_def andThen_def call_def split: prod.splits)

text \<open>
  The configured failure hook has no part in the submit routine: replacing it changes
  nothing.
\<close>

lemma attempt_onFailure_irrelevant:
  "attempt client (config\<lparr>cfg_onFailure := f\<rparr>) = attempt client config"
  by (intro ext)
     (simp add: attempt_def settings.truncate_def Let_def split: prod.splits sum.splits)

lemma submit_onFailure_irrelevant:
  "submit client (config\<lparr>cfg_onFailure := f\<rparr>) s = submit client config s"
  by (simp add: submit_def prepare_def attempt_onFailure_irrelevant settings.truncate_def Let_def
        split: prod.splits sum.splits option.splits)

lemma example_prepare:
  "fst (prepare (configured exampleProps) exampleState) = Inr [(''email'', ''ada'')]"
  by (simp add: example_defs prepare_defs hook_defs)

lemma example_prepare_collapse:
  "fst (prepare config s) = Inr fd \<Longrightarrow> prepare config s = (Inr fd, snd (prepare config s))"
  by (simp add: prod_eq_iff)

text \<open>
  Claim C1, as the code has it. The options override the failure hook with
  \<open>noteFailure\<close>, which would write \<^verbatim>\<open>failed\<close> into the error slot, and the client
  rejects with a network error. The configuration holds the hook, but the routine
  calls the module's own \<^verbatim>\<open>onFailure\<close>: the configured hook is not called and the
  slot stays empty. The error renderer is called once, with the empty list, before the
  network call, and not after it.
\<close>

theorem submit_calls_module_onFailure:
  "cfg_onFailure (configured (exampleProps\<lparr>props_onFailure := Some noteFailure\<rparr>)) = noteFailure
   \<and> trace (snd (submit (rejecting (Error ''network''))
         (configured (exampleProps\<lparr>props_onFailure := Some noteFailure\<rparr>)) exampleState)) =
       [RenderErrors [], Disable, OnSubmit,
        SubmitForm \<lparr>req_id = ''f1'', req_endpoint = ''https://api.statickit.com'',
                    req_data = [(''email'', ''ada'')]\<rparr>,
        ModuleOnFailure (Error ''network''), Enable]
   \<and> map innerHTML (slots (elements (world (snd (submit (rejecting (Error ''network''))
         (configured (exampleProps\<lparr>props_onFailure := Some noteFailure\<rparr>)) exampleState))) 0)) =
       ['''']
   \<and> map innerHTML (slots (elements (snd (noteFailure
         (settings.truncate (configured (exampleProps\<lparr>props_onFailure := Some noteFailure\<rparr>)))
         (Error ''network'') exampleWorld)) 0)) = [''failed'']"
  by (simp add: example_defs prepare_defs hook_defs submit_def attempt_def callSubmitForm_def
        tryCatchFinally_def noteFailure_def)

text \<open>
  Claim C2, as amended. In every invocation whose statements before the \<^verbatim>\<open>try\<close> block
  return (the form data, the data functions, the clearing render, the disable hook and
  the submit hook), the configured disable hook is called before the network call
  begins and the configured enable hook is called exactly once, as the last call of the
  routine, whatever the client and the hooks of the classification do, throwing
  included. When one of those statements throws, the routine rejects with that
  exception, and neither the network call nor the enable hook takes place.
\<close>

theorem submit_enable_on_exit:
  "(\<forall>fd s1. prepare config s = (Inr fd, s1) \<longrightarrow>
      (\<exists>mid. trace (snd (submit client config s)) =
               trace s @
               [RenderErrors [], Disable, OnSubmit,
                SubmitForm \<lparr>req_id = cfg_id config, req_endpoint = cfg_endpoint config,
                            req_data = fd\<rparr>] @ mid @ [Enable]
             \<and> Enable \<notin> set mid \<and> Disable \<notin> set mid))
   \<and> (\<forall>e s1. prepare config s = (Inl e, s1) \<longrightarrow>
        submit client config s = (Some e, s1) \<and>
        (\<exists>evs. trace s1 = trace s @ evs \<and> Enable \<notin> set evs \<and>
               (\<forall>req. SubmitForm req \<notin> set evs)))"
proof -
  have ok: "\<exists>mid. trace (snd (submit client config s)) =
               trace s @
               [RenderErrors [], Disable, OnSubmit,
                SubmitForm \<lparr>req_id = cfg_id config, req_endpoint = cfg_endpoint config,
                            req_data = fd\<rparr>] @ mid @ [Enable]
             \<and> Enable \<notin> set mid \<and> Disable \<notin> set mid"
    if p: "prepare config s = (Inr fd, s1)" for fd s1
  proof -
    obtain mid where mid: "trace (snd (attempt client config fd s1)) =
        trace s1 @
        SubmitForm \<lparr>req_id = cfg_id config, req_endpoint = cfg_endpoint config,
                    req_data = fd\<rparr> # mid"
      "Enable \<notin> set mid" "Disable \<notin> set mid"
      using attempt_trace by blast
    obtain r s2 where a: "attempt client config fd s1 = (r, s2)"
      by (cases "attempt client config fd s1")
    show ?thesis
    proof (cases r)
      case None
      with a mid p show ?thesis
        by (simp add: submit_unfold tryCatchFinally_onFailure call_trace prepare_trace)
    next
      case (Some e)
      with a mid p have "trace (snd (submit client config s)) =
           trace s @
           [RenderErrors [], Disable, OnSubmit,
            SubmitForm \<lparr>req_id = cfg_id config, req_endpoint = cfg_endpoint config,
                        req_data = fd\<rparr>] @ (mid @ [ModuleOnFailure e]) @ [Enable]"
        by (simp add: submit_unfold tryCatchFinally_onFailure call_trace prepare_trace)
      moreover have "Enable \<notin> set (mid @ [ModuleOnFailure e])"
        "Disable \<notin> set (mid @ [ModuleOnFailure e])"
        using mid by auto
      ultimately show ?thesis by blast
    qed
  qed
  have bad: "submit client config s = (Some e, s1) \<and>
        (\<exists>evs. trace s1 = trace s @ evs \<and> Enable \<notin> set evs \<and>
               (\<forall>req. SubmitForm req \<notin> set evs))"
    if p: "prepare config s = (Inl e, s1)" for e s1
    using prepare_fails [OF p] p by (simp add: submit_def Let_def)
  from ok bad show ?thesis by blast
qed

theorem submit_enable_on_exit_witness:
  "(\<exists>mid. trace (snd (submit (rejecting (Error ''network'')) (configured exampleProps)
             exampleState)) =
           [RenderErrors [], Disable, OnSubmit,
            SubmitForm \<lparr>req_id = ''f1'', req_endpoint = ''https://api.statickit.com'',
                        req_data = [(''email'', ''ada'')]\<rparr>] @ mid @ [Enable]
         \<and> Enable \<notin> set mid \<and> Disable \<notin> set mid)"
proof -
  note p = example_prepare_collapse [OF example_prepare]
  from submit_enable_on_exit
         [of "configured exampleProps" exampleState "rejecting (Error ''network'')"] p
  have "\<exists>mid. trace (snd (submit (rejecting (Error ''network'')) (configured exampleProps)
             exampleState)) =
           trace exampleState @
           [RenderErrors [], Disable, OnSubmit,
            SubmitForm \<lparr>req_id = cfg_id (configured exampleProps),
                        req_endpoint = cfg_endpoint (configured exampleProps),
                        req_data = [(''email'', ''ada'')]\<rparr>] @ mid @ [Enable]
         \<and> Enable \<notin> set mid \<and> Disable \<notin> set mid"
    by blast
  then show ?thesis
    by (simp add: example_defs)
qed

text \<open>
  The claim C2 as it is written fails: with a submit hook that throws, the routine
  disables the button, rejects, and never calls the enable hook; the button stays
  disabled.
\<close>

theorem submit_enable_on_exit_counterexample:
  "fst (submit (resolving 200 []) (configured (exampleProps\<lparr>props_onSubmit := Some throwing\<rparr>))
          exampleState) = Some (Error ''boom'')
   \<and> trace (snd (submit (resolving 200 [])
         (configured (exampleProps\<lparr>props_onSubmit := Some throwing\<rparr>)) exampleState)) =
       [RenderErrors [], Disable, OnSubmit]
   \<and> map disabled (controls (elements (world (snd (submit (resolving 200 [])
         (configured (exampleProps\<lparr>props_onSubmit := Some throwing\<rparr>)) exampleState))) 0)) =
       [True]"
  by (simp add: example_defs prepare_defs hook_defs submit_def throwing_def)

text \<open>
  Claim C3, as amended. When the network call has begun and the client resolves with a
  status other than 200, the routine takes \<^verbatim>\<open>body.errors\<close> and calls the configured
  error renderer with it, once after the network call. When the renderer returns, the
  routine then calls the configured validation-error hook with the same list, and only
  the module's failure callback (when that hook throws) and the enable hook follow.
  When the renderer throws, the validation-error hook is not called: the module's
  failure callback and the enable hook follow at once.
\<close>

theorem submit_validation_failure:
  assumes "prepare config s = (Inr fd, s1)"
    and "submitForm client
           \<lparr>req_id = cfg_id config, req_endpoint = cfg_endpoint config, req_data = fd\<rparr>
           (world s1) = (Inr result, w2)"
    and "status (response result) \<noteq> 200"
  shows "trace (snd (submit client config s)) =
           trace s @
           [RenderErrors [], Disable, OnSubmit,
            SubmitForm \<lparr>req_id = cfg_id config, req_endpoint = cfg_endpoint config,
                        req_data = fd\<rparr>,
            RenderErrors (errors (body result))] @
           (case cfg_renderErrors config (settings.truncate config) (errors (body result)) w2 of
              (Some e, w3) \<Rightarrow> [ModuleOnFailure e]
            | (None, w3) \<Rightarrow>
                OnError (errors (body result)) #
                (case fst (cfg_onError config (settings.truncate config)
                             (errors (body result)) w3) of
                   None \<Rightarrow> [] | Some e \<Rightarrow> [ModuleOnFailure e])) @
           [Enable]
     \<and> world (snd (submit client config s)) =
         snd (cfg_enable config (settings.truncate config)
           (case cfg_renderErrors config (settings.truncate config) (errors (body result)) w2 of
              (Some e, w3) \<Rightarrow> w3
            | (None, w3) \<Rightarrow>
                snd (cfg_onError config (settings.truncate config) (errors (body result)) w3)))"
proof -
  obtain r w3 where rr:
    "cfg_renderErrors config (settings.truncate config) (errors (body result)) w2 = (r, w3)"
    by (cases "cfg_renderErrors config (settings.truncate config) (errors (body result)) w2")
  show ?thesis
  proof (cases r)
    case None
    with assms rr show ?thesis
      by (cases "fst (cfg_onError config (settings.truncate config) (errors (body result)) w3)")
         (simp_all add: submit_unfold tryCatchFinally_onFailure attempt_failure call_trace
            call_world prepare_trace)
  next
    case (Some e)
    with assms rr show ?thesis
      by (simp add: submit_unfold tryCatchFinally_onFailure attempt_failure call_trace
            call_world prepare_trace)
  qed
qed

theorem submit_validation_failure_witness:
  "trace (snd (submit (resolving 422 exampleErrors) (configured exampleProps) exampleState)) =
     [RenderErrors [], Disable, OnSubmit,
      SubmitForm \<lparr>req_id = ''f1'', req_endpoint = ''https://api.statickit.com'',
                  req_data = [(''email'', ''ada'')]\<rparr>,
      RenderErrors exampleErrors, OnError exampleErrors, Enable]"
proof -
  let ?config = "configured exampleProps"
  let ?s1 = "snd (prepare ?config exampleState)"
  let ?result = "\<lparr>response = \<lparr>status = 422\<rparr>, body = \<lparr>errors = exampleErrors, payload = []\<rparr>\<rparr>"
  note p = example_prepare_collapse [OF example_prepare]
  have c: "submitForm (resolving 422 exampleErrors)
             \<lparr>req_id = cfg_id ?config, req_endpoint = cfg_endpoint ?config,
              req_data = [(''email'', ''ada'')]\<rparr> (world ?s1) = (Inr ?result, world ?s1)"
    by (simp add: resolving_def)
  have n: "status (response ?result) \<noteq> 200" by simp
  from submit_validation_failure [OF p c n] show ?thesis
    by (simp add: configured_def assign_def defaults_def override_def exampleProps_def
          exampleState_def onError_def renderErrors_def)
qed

text \<open>
  The claim C3 as it is written fails: with an error renderer that throws on the list
  of a 422 response, the validation-error hook is never called.
\<close>

theorem submit_validation_failure_counterexample:
  "trace (snd (submit (resolving 422 exampleErrors)
      (configured (exampleProps\<lparr>props_renderErrors := Some throwingRenderer\<rparr>)) exampleState)) =
     [RenderErrors [], Disable, OnSubmit,
      SubmitForm \<lparr>req_id = ''f1'', req_endpoint = ''https://api.statickit.com'',
                  req_data = [(''email'', ''ada'')]\<rparr>,
      RenderErrors exampleErrors, ModuleOnFailure (Error ''boom''), Enable]
   \<and> OnError exampleErrors \<notin> set (trace (snd (submit (resolving 422 exampleErrors)
      (configured (exampleProps\<lparr>props_renderErrors := Some throwingRenderer\<rparr>)) exampleState)))"
  by (simp add: example_defs prepare_defs hook_defs submit_def attempt_def callSubmitForm_def
        tryCatchFinally_def throwingRenderer_def)

lemma replaceFirst_distinct:
  "distinct ns \<Longrightarrow> old \<in> set ns \<Longrightarrow> new \<noteq> old \<Longrightarrow>
     old \<notin> set (replaceFirst old new ns) \<and> new \<in> set (replaceFirst old new ns)"
  by (induction ns) auto

lemma onSuccess_attached:
  assumes "parentNode (elements w (cfg_form c)) = Some p" "p \<noteq> cfg_form c"
    "ElementRef (cfg_form c) \<in> set (childNodes (elements w p))"
  shows "fst (onSuccess c b w) = None"
    "childNodes (elements (snd (onSuccess c b w)) p) =
       replaceFirst (ElementRef (cfg_form c)) (cfg_h c ''div'' [] ''Thank you!'')
         (childNodes (elements w p))"
    "parentNode (elements (snd (onSuccess c b w)) (cfg_form c)) = None"
  using assms by (simp_all add: onSuccess_def replaceChild_def updateForm_def Let_def)

text \<open>
  Claim C4. When the network call has begun and the client resolves with status 200,
  the routine calls the configured success hook with the response body. The error
  renderer is called with the empty list before the network call and not at all after
  it; only the module's failure callback (when the success hook throws) and the enable
  hook follow. The default success hook, with the default \<^verbatim>\<open>h\<close>, run on a form that
  is a child of its parent node, returns normally and leaves the parent with a new
  \<^verbatim>\<open>div\<close> of text \<^verbatim>\<open>Thank you!\<close> in the place of the form, which is no longer among
  the children and has no parent.
\<close>

theorem submit_success:
  assumes "prepare config s = (Inr fd, s1)"
    and "submitForm client
           \<lparr>req_id = cfg_id config, req_endpoint = cfg_endpoint config, req_data = fd\<rparr>
           (world s1) = (Inr result, w2)"
    and "status (response result) = 200"
  shows "trace (snd (submit client config s)) =
           trace s @
           [RenderErrors [], Disable, OnSubmit,
            SubmitForm \<lparr>req_id = cfg_id config, req_endpoint = cfg_endpoint config,
                        req_data = fd\<rparr>,
            OnSuccess (body result)] @
           (case fst (cfg_onSuccess config (settings.truncate config) (body result) w2) of
              None \<Rightarrow> [] | Some e \<Rightarrow> [ModuleOnFailure e]) @
           [Enable]
     \<and> world (snd (submit client config s)) =
         snd (cfg_enable config (settings.truncate config)
                (snd (cfg_onSuccess config (settings.truncate config) (body result) w2)))
     \<and> (cfg_onSuccess config = onSuccess \<and> cfg_h config = h \<and>
        parentNode (elements w2 (cfg_form config)) = Some p \<and> p \<noteq> cfg_form config \<and>
        ElementRef (cfg_form config) \<in> set (childNodes (elements w2 p)) \<and>
        distinct (childNodes (elements w2 p)) \<longrightarrow>
          (let w3 = snd (cfg_onSuccess config (settings.truncate config) (body result) w2)
           in fst (cfg_onSuccess config (settings.truncate config) (body result) w2) = None \<and>
              childNodes (elements w3 p) =
                replaceFirst (ElementRef (cfg_form config)) (Created ''div'' [] ''Thank you!'')
                  (childNodes (elements w2 p)) \<and>
              ElementRef (cfg_form config) \<notin> set (childNodes (elements w3 p)) \<and>
              Created ''div'' [] ''Thank you!'' \<in> set (childNodes (elements w3 p)) \<and>
              parentNode (elements w3 (cfg_form config)) = None))"
proof -
  let ?c = "settings.truncate config"
  have tr: "trace (snd (submit client config s)) =
           trace s @
           [RenderErrors [], Disable, OnSubmit,
            SubmitForm \<lparr>req_id = cfg_id config, req_endpoint = cfg_endpoint config,
                        req_data = fd\<rparr>,
            OnSuccess (body result)] @
           (case fst (cfg_onSuccess config ?c (body result) w2) of
              None \<Rightarrow> [] | Some e \<Rightarrow> [ModuleOnFailure e]) @
           [Enable]"
    using assms
    by (simp add: submit_unfold tryCatchFinally_onFailure attempt_success call_trace
          prepare_trace split: option.splits)
  have wo: "world (snd (submit client config s)) =
         snd (cfg_enable config ?c (snd (cfg_onSuccess config ?c (body result) w2)))"
    using assms
    by (simp add: submit_unfold tryCatchFinally_onFailure attempt_success call_world
          split: option.splits)
  have dom: "(let w3 = snd (cfg_onSuccess config ?c (body result) w2)
           in fst (cfg_onSuccess config ?c (body result) w2) = None \<and>
              childNodes (elements w3 p) =
                replaceFirst (ElementRef (cfg_form config)) (Created ''div'' [] ''Thank you!'')
                  (childNodes (elements w2 p)) \<and>
              ElementRef (cfg_form config) \<notin> set (childNodes (elements w3 p)) \<and>
              Created ''div'' [] ''Thank you!'' \<in> set (childNodes (elements w3 p)) \<and>
              parentNode (elements w3 (cfg_form config)) = None)"
    if hyp: "cfg_onSuccess config = onSuccess" "cfg_h config = h"
      "parentNode (elements w2 (cfg_form config)) = Some p" "p \<noteq> cfg_form config"
      "ElementRef (cfg_form config) \<in> set (childNodes (elements w2 p))"
      "distinct (childNodes (elements w2 p))"
  proof -
    have a: "parentNode (elements w2 (cfg_form ?c)) = Some p" "p \<noteq> cfg_form ?c"
      "ElementRef (cfg_form ?c) \<in> set (childNodes (elements w2 p))"
      using hyp by (simp_all add: truncate_simps)
    note os = onSuccess_attached [OF a, of "body result"]
    have r: "Created ''div'' [] ''Thank you!'' \<noteq> ElementRef (cfg_form config)" by simp
    from replaceFirst_distinct [OF hyp(6) hyp(5) r] os show ?thesis
      by (simp add: hyp(1) hyp(2) truncate_simps h_def Let_def)
  qed
  from tr wo dom show ?thesis by blast
qed

lemma example_prepare_world:
  "parentNode (elements (world (snd (prepare (configured exampleProps) exampleState))) 0) = Some 1"
  "childNodes (elements (world (snd (prepare (configured exampleProps) exampleState))) 1) =
     [ElementRef 0]"
  by (simp_all add: example_defs prepare_defs hook_defs)

theorem submit_success_witness:
  "trace (snd (submit (resolving 200 []) (configured exampleProps) exampleState)) =
     [RenderErrors [], Disable, OnSubmit,
      SubmitForm \<lparr>req_id = ''f1'', req_endpoint = ''https://api.statickit.com'',
                  req_data = [(''email'', ''ada'')]\<rparr>,
      OnSuccess \<lparr>errors = [], payload = []\<rparr>, Enable]
   \<and> childNodes (elements (world (snd (submit (resolving 200 []) (configured exampleProps)
        exampleState))) 1) = [Created ''div'' [] ''Thank you!'']"
proof -
  let ?config = "configured exampleProps"
  let ?s1 = "snd (prepare ?config exampleState)"
  let ?result = "\<lparr>response = \<lparr>status = 200\<rparr>, body = \<lparr>errors = [], payload = []\<rparr>\<rparr>"
  note p = example_prepare_collapse [OF example_prepare]
  have c: "submitForm (resolving 200 [])
             \<lparr>req_id = cfg_id ?config, req_endpoint = cfg_endpoint ?config,
              req_data = [(''email'', ''ada'')]\<rparr> (world ?s1) = (Inr ?result, world ?s1)"
    by (simp add: resolving_def)
  have n: "status (response ?result) = 200" by simp
  have cfg: "cfg_onSuccess ?config = onSuccess" "cfg_h ?config = h" "cfg_form ?config = 0"
    "cfg_enable ?config = enable" "cfg_id ?config = ''f1''"
    "cfg_endpoint ?config = ''https://api.statickit.com''"
    by (simp_all add: configured_def assign_def defaults_def override_def exampleProps_def)
  note t = submit_success [OF p c n, of 1]
  from t example_prepare_world cfg
  have d: "fst (onSuccess (settings.truncate ?config) (body ?result) (world ?s1)) = None"
    "childNodes (elements (snd (onSuccess (settings.truncate ?config) (body ?result)
        (world ?s1))) 1) = [Created ''div'' [] ''Thank you!'']"
    by (simp_all add: Let_def)
  from t d cfg show ?thesis
    by (simp add: exampleState_def enable_def updateForm_def truncate_simps)
qed

text \<open>The default enable hook leaves every control of type submit enabled.\<close>

lemma enable_enables:
  "list_all (\<lambda>button. ctype button = ''submit'' \<longrightarrow> \<not> disabled button)
     (controls (elements (snd (enable c w)) (cfg_form c)))"
  by (auto simp: enable_def updateForm_def list_all_iff)

lemma attempt_throws:
  assumes "submitForm client
           \<lparr>req_id = cfg_id config, req_endpoint = cfg_endpoint config, req_data = fd\<rparr>
           (world s1) = (Inr result, w2)"
    and "status (response result) = 200 \<and>
           cfg_onSuccess config (settings.truncate config) (body result) w2 = (Some e, w3)
         \<or> status (response result) \<noteq> 200 \<and>
           cfg_renderErrors config (settings.truncate config) (errors (body result)) w2 =
             (Some e, w3)
         \<or> status (response result) \<noteq> 200 \<and>
           (\<exists>w'. cfg_renderErrors config (settings.truncate config) (errors (body result)) w2 =
                   (None, w') \<and>
                 cfg_onError config (settings.truncate config) (errors (body result)) w' =
                   (Some e, w3))"
  shows "attempt client config fd s1 =
     (Some e,
      \<lparr>world = w3,
       trace = trace s1 @
         SubmitForm \<lparr>req_id = cfg_id config, req_endpoint = cfg_endpoint config, req_data = fd\<rparr> #
         (if status (response result) = 200 then [OnSuccess (body result)]
          else if fst (cfg_renderErrors config (settings.truncate config)
                         (errors (body result)) w2) = None
               then [RenderErrors (errors (body result)), OnError (errors (body result))]
               else [RenderErrors (errors (body result))])\<rparr>)"
  using assms
  by (auto simp: attempt_def Let_def callSubmitForm_def andThen_def call_def)

text \<open>
  Claim C8, as amended. When the client has resolved and a hook of the classification
  throws \<open>e\<close> (the success hook on a 200, the error renderer on another status, or the
  validation-error hook after the renderer has returned), the routine catches it: the
  module's default failure callback is called with \<open>e\<close> and changes nothing, then the
  configured enable hook is called, in the world the throwing hook left. The promise is
  settled by the enable hook alone: it resolves when that hook returns and rejects with
  the hook's exception when it throws. With the default enable hook the promise
  resolves and every control of type submit in the form ends enabled.
\<close>

theorem submit_catches_hook_exception:
  assumes "prepare config s = (Inr fd, s1)"
    and "submitForm client
           \<lparr>req_id = cfg_id config, req_endpoint = cfg_endpoint config, req_data = fd\<rparr>
           (world s1) = (Inr result, w2)"
    and "status (response result) = 200 \<and>
           cfg_onSuccess config (settings.truncate config) (body result) w2 = (Some e, w3)
         \<or> status (response result) \<noteq> 200 \<and>
           cfg_renderErrors config (settings.truncate config) (errors (body result)) w2 =
             (Some e, w3)
         \<or> status (response result) \<noteq> 200 \<and>
           (\<exists>w'. cfg_renderErrors config (settings.truncate config) (errors (body result)) w2 =
                   (None, w') \<and>
                 cfg_onError config (settings.truncate config) (errors (body result)) w' =
                   (Some e, w3))"
  shows "trace (snd (submit client config s)) =
           trace s @
           [RenderErrors [], Disable, OnSubmit,
            SubmitForm \<lparr>req_id = cfg_id config, req_endpoint = cfg_endpoint config,
                        req_data = fd\<rparr>] @
           (if status (response result) = 200 then [OnSuccess (body result)]
            else if fst (cfg_renderErrors config (settings.truncate config)
                           (errors (body result)) w2) = None
                 then [RenderErrors (errors (body result)), OnError (errors (body result))]
                 else [RenderErrors (errors (body result))]) @
           [ModuleOnFailure e, Enable]
     \<and> world (snd (submit client config s)) =
         snd (cfg_enable config (settings.truncate config) w3)
     \<and> fst (submit client config s) =
         fst (cfg_enable config (settings.truncate config) w3)
     \<and> (cfg_enable config = enable \<longrightarrow>
          fst (submit client config s) = None \<and>
          list_all (\<lambda>button. ctype button = ''submit'' \<longrightarrow> \<not> disabled button)
            (controls (elements (world (snd (submit client config s))) (cfg_form config))))"
proof -
  note a = attempt_throws [OF assms(2) assms(3)]
  have tr: "trace (snd (submit client config s)) =
           trace s @
           [RenderErrors [], Disable, OnSubmit,
            SubmitForm \<lparr>req_id = cfg_id config, req_endpoint = cfg_endpoint config,
                        req_data = fd\<rparr>] @
           (if status (response result) = 200 then [OnSuccess (body result)]
            else if fst (cfg_renderErrors config (settings.truncate config)
                           (errors (body result)) w2) = None
                 then [RenderErrors (errors (body result)), OnError (errors (body result))]
                 else [RenderErrors (errors (body result))]) @
           [ModuleOnFailure e, Enable]"
    using assms(1) a
    by (simp add: submit_unfold tryCatchFinally_onFailure call_trace prepare_trace)
  have wo: "world (snd (submit client config s)) =
         snd (cfg_enable config (settings.truncate config) w3)"
    "fst (submit client config s) = fst (cfg_enable config (settings.truncate config) w3)"
    using assms(1) a
    by (simp_all add: submit_unfold tryCatchFinally_onFailure call_world call_fst)
  have de: "fst (submit client config s) = None \<and>
          list_all (\<lambda>button. ctype button = ''submit'' \<longrightarrow> \<not> disabled button)
            (controls (elements (world (snd (submit client config s))) (cfg_form config)))"
    if "cfg_enable config = enable"
    using wo that enable_enables [of "settings.truncate config" w3]
    by (simp add: truncate_simps enable_def)
  from tr wo de show ?thesis by blast
qed

lemma example_prepare_hooks:
  "fst (prepare (configured (exampleProps\<lparr>props_onSuccess := Some throwingOnSuccess\<rparr>))
          exampleState) = Inr [(''email'', ''ada'')]"
  "fst (prepare (configured (exampleProps\<lparr>props_renderErrors := Some throwingRenderer\<rparr>))
          exampleState) = Inr [(''email'', ''ada'')]"
  "fst (prepare (configured (exampleProps\<lparr>props_onError := Some throwingOnError\<rparr>))
          exampleState) = Inr [(''email'', ''ada'')]"
  by (simp_all add: example_defs prepare_defs hook_defs throwingRenderer_def)

lemma example_prepare_controls:
  "controls (elements (world (snd (prepare
      (configured (exampleProps\<lparr>props_onSuccess := Some throwingOnSuccess\<rparr>)) exampleState))) 0) =
     [\<lparr>ctype = ''submit'', disabled = True\<rparr>]"
  by (simp add: example_defs prepare_defs hook_defs)

lemma example_config_hooks:
  "cfg_enable (configured (exampleProps\<lparr>props_onSuccess := Some throwingOnSuccess\<rparr>)) = enable"
  "cfg_enable (configured (exampleProps\<lparr>props_renderErrors := Some throwingRenderer\<rparr>)) = enable"
  "cfg_enable (configured (exampleProps\<lparr>props_onError := Some throwingOnError\<rparr>)) = enable"
  "cfg_onSuccess (configured (exampleProps\<lparr>props_onSuccess := Some throwingOnSuccess\<rparr>)) =
     throwingOnSuccess"
  "cfg_renderErrors (configured (exampleProps\<lparr>props_renderErrors := Some throwingRenderer\<rparr>)) =
     throwingRenderer"
  "cfg_renderErrors (configured (exampleProps\<lparr>props_onError := Some throwingOnError\<rparr>)) =
     renderErrors examplePlatform"
  "cfg_onError (configured (exampleProps\<lparr>props_onError := Some throwingOnError\<rparr>)) =
     throwingOnError"
  "cfg_id (configured props) = ''f1''"
  "cfg_form (configured props) = 0"
  "cfg_endpoint (configured (exampleProps\<lparr>props_onSuccess := Some throwingOnSuccess\<rparr>)) =
     ''https://api.statickit.com''"
  "cfg_endpoint (configured (exampleProps\<lparr>props_renderErrors := Some throwingRenderer\<rparr>)) =
     ''https://api.statickit.com''"
  "cfg_endpoint (configured (exampleProps\<lparr>props_onError := Some throwingOnError\<rparr>)) =
     ''https://api.statickit.com''"
  by (simp_all add: configured_def assign_def defaults_def override_def exampleProps_def)

theorem submit_catches_hook_exception_witness:
  "fst (submit (resolving 200 [])
          (configured (exampleProps\<lparr>props_onSuccess := Some throwingOnSuccess\<rparr>))
          exampleState) = None
   \<and> trace (snd (submit (resolving 200 [])
          (configured (exampleProps\<lparr>props_onSuccess := Some throwingOnSuccess\<rparr>))
          exampleState)) =
     [RenderErrors [], Disable, OnSubmit,
      SubmitForm \<lparr>req_id = ''f1'', req_endpoint = ''https://api.statickit.com'',
                  req_data = [(''email'', ''ada'')]\<rparr>,
      OnSuccess \<lparr>errors = [], payload = []\<rparr>, ModuleOnFailure (Error ''boom''), Enable]
   \<and> map disabled (controls (elements (world (snd (submit (resolving 200 [])
          (configured (exampleProps\<lparr>props_onSuccess := Some throwingOnSuccess\<rparr>))
          exampleState))) 0)) = [False]
   \<and> fst (submit (resolving 422 exampleErrors)
          (configured (exampleProps\<lparr>props_renderErrors := Some throwingRenderer\<rparr>))
          exampleState) = None
   \<and> trace (snd (submit (resolving 422 exampleErrors)
          (configured (exampleProps\<lparr>props_renderErrors := Some throwingRenderer\<rparr>))
          exampleState)) =
     [RenderErrors [], Disable, OnSubmit,
      SubmitForm \<lparr>req_id = ''f1'', req_endpoint = ''https://api.statickit.com'',
                  req_data = [(''email'', ''ada'')]\<rparr>,
      RenderErrors exampleErrors, ModuleOnFailure (Error ''boom''), Enable]
   \<and> fst (submit (resolving 422 exampleErrors)
          (configured (exampleProps\<lparr>props_onError := Some throwingOnError\<rparr>))
          exampleState) = None
   \<and> trace (snd (submit (resolving 422 exampleErrors)
          (configured (exampleProps\<lparr>props_onError := Some throwingOnError\<rparr>))
          exampleState)) =
     [RenderErrors [], Disable, OnSubmit,
      SubmitForm \<lparr>req_id = ''f1'', req_endpoint = ''https://api.statickit.com'',
                  req_data = [(''email'', ''ada'')]\<rparr>,
      RenderErrors exampleErrors, OnError exampleErrors,
      ModuleOnFailure (Error ''boom''), Enable]"
proof -
  let ?fd = "[(''email'', ''ada'')]"
  let ?ok = "\<lparr>response = \<lparr>status = 200\<rparr>, body = \<lparr>errors = [], payload = []\<rparr>\<rparr>"
  let ?bad = "\<lparr>response = \<lparr>status = 422\<rparr>, body = \<lparr>errors = exampleErrors, payload = []\<rparr>\<rparr>"
  let ?A = "configured (exampleProps\<lparr>props_onSuccess := Some throwingOnSuccess\<rparr>)"
  let ?B = "configured (exampleProps\<lparr>props_renderErrors := Some throwingRenderer\<rparr>)"
  let ?C = "configured (exampleProps\<lparr>props_onError := Some throwingOnError\<rparr>)"
  let ?wA = "world (snd (prepare ?A exampleState))"
  let ?wB = "world (snd (prepare ?B exampleState))"
  let ?wC = "world (snd (prepare ?C exampleState))"
  note cfg = example_config_hooks
  have ne: "exampleErrors \<noteq> []" by (simp add: exampleErrors_def)
  have cA: "submitForm (resolving 200 [])
             \<lparr>req_id = cfg_id ?A, req_endpoint = cfg_endpoint ?A, req_data = ?fd\<rparr> ?wA =
            (Inr ?ok, ?wA)"
    by (simp add: resolving_def)
  have cB: "submitForm (resolving 422 exampleErrors)
             \<lparr>req_id = cfg_id ?B, req_endpoint = cfg_endpoint ?B, req_data = ?fd\<rparr> ?wB =
            (Inr ?bad, ?wB)"
    by (simp add: resolving_def)
  have cC: "submitForm (resolving 422 exampleErrors)
             \<lparr>req_id = cfg_id ?C, req_endpoint = cfg_endpoint ?C, req_data = ?fd\<rparr> ?wC =
            (Inr ?bad, ?wC)"
    by (simp add: resolving_def)
  have hA: "status (response ?ok) = 200 \<and>
           cfg_onSuccess ?A (settings.truncate ?A) (body ?ok) ?wA = (Some (Error ''boom''), ?wA)
         \<or> status (response ?ok) \<noteq> 200 \<and>
           cfg_renderErrors ?A (settings.truncate ?A) (errors (body ?ok)) ?wA =
             (Some (Error ''boom''), ?wA)
         \<or> status (response ?ok) \<noteq> 200 \<and>
           (\<exists>w'. cfg_renderErrors ?A (settings.truncate ?A) (errors (body ?ok)) ?wA = (None, w') \<and>
                 cfg_onError ?A (settings.truncate ?A) (errors (body ?ok)) w' =
                   (Some (Error ''boom''), ?wA))"
    by (simp add: cfg throwingOnSuccess_def)
  have hB: "status (response ?bad) = 200 \<and>
           cfg_onSuccess ?B (settings.truncate ?B) (body ?bad) ?wB = (Some (Error ''boom''), ?wB)
         \<or> status (response ?bad) \<noteq> 200 \<and>
           cfg_renderErrors ?B (settings.truncate ?B) (errors (body ?bad)) ?wB =
             (Some (Error ''boom''), ?wB)
         \<or> status (response ?bad) \<noteq> 200 \<and>
           (\<exists>w'. cfg_renderErrors ?B (settings.truncate ?B) (errors (body ?bad)) ?wB = (None, w') \<and>
                 cfg_onError ?B (settings.truncate ?B) (errors (body ?bad)) w' =
                   (Some (Error ''boom''), ?wB))"
    by (simp add: cfg throwingRenderer_def ne)
  let ?w3 = "snd (renderErrors examplePlatform (settings.truncate ?C) exampleErrors ?wC)"
  have hC: "status (response ?bad) = 200 \<and>
           cfg_onSuccess ?C (settings.truncate ?C) (body ?bad) ?wC = (Some (Error ''boom''), ?w3)
         \<or> status (response ?bad) \<noteq> 200 \<and>
           cfg_renderErrors ?C (settings.truncate ?C) (errors (body ?bad)) ?wC =
             (Some (Error ''boom''), ?w3)
         \<or> status (response ?bad) \<noteq> 200 \<and>
           (\<exists>w'. cfg_renderErrors ?C (settings.truncate ?C) (errors (body ?bad)) ?wC = (None, w') \<and>
                 cfg_onError ?C (settings.truncate ?C) (errors (body ?bad)) w' =
                   (Some (Error ''boom''), ?w3))"
    by (simp add: cfg throwingOnError_def renderErrors_def)
  note tA = submit_catches_hook_exception
    [OF example_prepare_collapse [OF example_prepare_hooks(1)] cA hA]
  note tB = submit_catches_hook_exception
    [OF example_prepare_collapse [OF example_prepare_hooks(2)] cB hB]
  note tC = submit_catches_hook_exception
    [OF example_prepare_collapse [OF example_prepare_hooks(3)] cC hC]
  from tA cfg(1) have a1: "fst (submit (resolving 200 []) ?A exampleState) = None"
    by blast
  from tB cfg(2) have b1: "fst (submit (resolving 422 exampleErrors) ?B exampleState) = None"
    by blast
  from tC cfg(3) have c1: "fst (submit (resolving 422 exampleErrors) ?C exampleState) = None"
    by blast
  from conjunct1 [OF tA]
  have a2: "trace (snd (submit (resolving 200 []) ?A exampleState)) =
     [RenderErrors [], Disable, OnSubmit,
      SubmitForm \<lparr>req_id = ''f1'', req_endpoint = ''https://api.statickit.com'',
                  req_data = [(''email'', ''ada'')]\<rparr>,
      OnSuccess \<lparr>errors = [], payload = []\<rparr>, ModuleOnFailure (Error ''boom''), Enable]"
    by (simp add: cfg exampleState_def)
  from conjunct1 [OF tB]
  have b2: "trace (snd (submit (resolving 422 exampleErrors) ?B exampleState)) =
     [RenderErrors [], Disable, OnSubmit,
      SubmitForm \<lparr>req_id = ''f1'', req_endpoint = ''https://api.statickit.com'',
                  req_data = [(''email'', ''ada'')]\<rparr>,
      RenderErrors exampleErrors, ModuleOnFailure (Error ''boom''), Enable]"
    by (simp add: cfg exampleState_def throwingRenderer_def ne)
  from conjunct1 [OF tC]
  have c2: "trace (snd (submit (resolving 422 exampleErrors) ?C exampleState)) =
     [RenderErrors [], Disable, OnSubmit,
      SubmitForm \<lparr>req_id = ''f1'', req_endpoint = ''https://api.statickit.com'',
                  req_data = [(''email'', ''ada'')]\<rparr>,
      RenderErrors exampleErrors, OnError exampleErrors,
      ModuleOnFailure (Error ''boom''), Enable]"
    by (simp add: cfg exampleState_def renderErrors_def)
  from conjunct1 [OF conjunct2 [OF tA]]
  have a3: "map disabled (controls (elements (world (snd (submit (resolving 200 []) ?A
      exampleState))) 0)) = [False]"
    by (simp add: cfg truncate_simps example_prepare_controls enable_def updateForm_def)
  from a1 a2 a3 b1 b2 c1 c2 show ?thesis by blast
qed

text \<open>
  The claim C8 as it is written fails: when the success hook throws and the configured
  enable hook throws too, the promise rejects, with the exception of the enable hook.
\<close>

theorem submit_catches_hook_exception_counterexample:
  "fst (submit (resolving 200 [])
          (configured (exampleProps\<lparr>props_onSuccess := Some throwingOnSuccess,
                                    props_enable := Some failingEnable\<rparr>))
          exampleState) = Some (Error ''fin'')
   \<and> trace (snd (submit (resolving 200 [])
          (configured (exampleProps\<lparr>props_onSuccess := Some throwingOnSuccess,
                                    props_enable := Some failingEnable\<rparr>))
          exampleState)) =
     [RenderErrors [], Disable, OnSubmit,
      SubmitForm \<lparr>req_id = ''f1'', req_endpoint = ''https://api.statickit.com'',
                  req_data = [(''email'', ''ada'')]\<rparr>,
      OnSuccess \<lparr>errors = [], payload = []\<rparr>, ModuleOnFailure (Error ''boom''), Enable]"
  by (simp add: example_defs prepare_defs hook_defs submit_def attempt_def callSubmitForm_def
        tryCatchFinally_def throwingOnSuccess_def failingEnable_def)

lemma appendData_Inr:
  "appendData c w entries acc = Inr fd \<Longrightarrow>
   \<exists>appended. fd = acc @ appended \<and>
     list_all2 (\<lambda>(prop, v) (name, x). name = prop \<and>
                 (case v of Literal l \<Rightarrow> x = l | Function f \<Rightarrow> f c w = Inr x))
       entries appended"
proof (induction c w entries acc rule: appendData.induct)
  case (1 config w formData)
  then show ?case by simp
next
  case (2 config w name f rest formData)
  then obtain v where v: "f config w = Inr v" by (auto split: sum.splits)
  with 2 obtain app where "fd = (formData @ [(name, v)]) @ app"
    "list_all2 (\<lambda>(prop, v) (name, x). name = prop \<and>
                 (case v of Literal l \<Rightarrow> x = l | Function f \<Rightarrow> f config w = Inr x)) rest app"
    by auto
  with v show ?case by (intro exI [of _ "(name, v) # app"]) simp
next
  case (3 config w name v rest formData)
  then obtain app where "fd = (formData @ [(name, v)]) @ app"
    "list_all2 (\<lambda>(prop, v) (name, x). name = prop \<and>
                 (case v of Literal l \<Rightarrow> x = l | Function f \<Rightarrow> f config w = Inr x)) rest app"
    by auto
  then show ?case by (intro exI [of _ "(name, v) # app"]) simp
qed

lemma prepare_data:
  "prepare config s = (Inr fd, s1) \<Longrightarrow>
   collectData (settings.truncate config) (cfg_data config) (world s)
     (formEntries (elements (world s) (cfg_form config))) = Inr fd"
  by (auto simp: prepare_def Let_def newFormData_def
        split: sum.splits prod.splits option.splits if_splits)

text \<open>
  Claim C10. Take an invocation that reaches the network call, and the data it sends.
  When \<^verbatim>\<open>typeof data\<close> is not \<^verbatim>\<open>object\<close> (a string, a number, undefined), the
  data are the entries of the form and nothing else. When \<^verbatim>\<open>data\<close> is an object, its
  entries follow those of the form, one for one and in order, under their own names:
  for a function the value it returned when called, at this submission, with the
  configuration, for anything else the value itself.
\<close>

theorem submit_data:
  assumes "prepare config s = (Inr fd, s1)"
  shows "(typeof (cfg_data config) \<noteq> ''object'' \<longrightarrow>
            fd = formEntries (elements (world s) (cfg_form config)))
     \<and> (\<forall>entries. cfg_data config = Object entries \<longrightarrow>
          (\<exists>appended.
             fd = formEntries (elements (world s) (cfg_form config)) @ appended \<and>
             list_all2
               (\<lambda>(prop, v) (name, x). name = prop \<and>
                  (case v of
                     Literal l \<Rightarrow> x = l
                   | Function f \<Rightarrow> f (settings.truncate config) (world s) = Inr x))
               entries appended))
     \<and> (\<exists>rest. trace (snd (submit client config s)) =
           trace s @ [RenderErrors [], Disable, OnSubmit] @
           SubmitForm \<lparr>req_id = cfg_id config, req_endpoint = cfg_endpoint config,
                       req_data = fd\<rparr> # rest)"
proof -
  note d = prepare_data [OF assms]
  have a: "typeof (cfg_data config) \<noteq> ''object'' \<longrightarrow>
            fd = formEntries (elements (world s) (cfg_form config))"
    using d by (auto simp: collectData_def)
  have b: "\<forall>entries. cfg_data config = Object entries \<longrightarrow>
          (\<exists>appended.
             fd = formEntries (elements (world s) (cfg_form config)) @ appended \<and>
             list_all2
               (\<lambda>(prop, v) (name, x). name = prop \<and>
                  (case v of
                     Literal l \<Rightarrow> x = l
                   | Function f \<Rightarrow> f (settings.truncate config) (world s) = Inr x))
               entries appended)"
    using d by (auto simp: collectData_def dest: appendData_Inr)
  obtain mid where "trace (snd (attempt client config fd s1)) =
     trace s1 @
     SubmitForm \<lparr>req_id = cfg_id config, req_endpoint = cfg_endpoint config,
                 req_data = fd\<rparr> # mid"
    using attempt_trace by blast
  then have c: "\<exists>rest. trace (snd (submit client config s)) =
           trace s @ [RenderErrors [], Disable, OnSubmit] @
           SubmitForm \<lparr>req_id = cfg_id config, req_endpoint = cfg_endpoint config,
                       req_data = fd\<rparr> # rest"
    using assms
    by (cases "attempt client config fd s1")
       (auto simp: submit_unfold tryCatchFinally_onFailure call_trace prepare_trace
          split: option.splits)
  from a b c show ?thesis by blast
qed

lemma example_prepare_data:
  "fst (prepare (configured (exampleProps\<lparr>props_data := Some exampleData\<rparr>)) exampleState) =
     Inr [(''email'', ''ada''), (''source'', ''web''), (''ref'', ''f1'')]"
  "fst (prepare (configured (exampleProps\<lparr>props_data := Some (Str ''web'')\<rparr>)) exampleState) =
     Inr [(''email'', ''ada'')]"
  by (simp_all add: example_defs prepare_defs hook_defs exampleData_def)

theorem submit_data_witness:
  "(\<exists>rest. trace (snd (submit (resolving 200 [])
              (configured (exampleProps\<lparr>props_data := Some exampleData\<rparr>)) exampleState)) =
      [RenderErrors [], Disable, OnSubmit,
       SubmitForm \<lparr>req_id = ''f1'', req_endpoint = ''https://api.statickit.com'',
                   req_data = [(''email'', ''ada''), (''source'', ''web''), (''ref'', ''f1'')]\<rparr>]
      @ rest)
   \<and> (\<exists>rest. trace (snd (submit (resolving 200 [])
              (configured (exampleProps\<lparr>props_data := Some (Str ''web'')\<rparr>)) exampleState)) =
      [RenderErrors [], Disable, OnSubmit,
       SubmitForm \<lparr>req_id = ''f1'', req_endpoint = ''https://api.statickit.com'',
                   req_data = [(''email'', ''ada'')]\<rparr>]
      @ rest)"
proof -
  note t1 = submit_data [OF example_prepare_collapse [OF example_prepare_data(1)],
                of "resolving 200 []"]
  note t2 = submit_data [OF example_prepare_collapse [OF example_prepare_data(2)],
                of "resolving 200 []"]
  from t1 have a: "\<exists>rest. trace (snd (submit (resolving 200 [])
              (configured (exampleProps\<lparr>props_data := Some exampleData\<rparr>)) exampleState)) =
      trace exampleState @ [RenderErrors [], Disable, OnSubmit] @
      SubmitForm \<lparr>req_id = cfg_id (configured (exampleProps\<lparr>props_data := Some exampleData\<rparr>)),
                  req_endpoint =
                    cfg_endpoint (configured (exampleProps\<lparr>props_data := Some exampleData\<rparr>)),
                  req_data = [(''email'', ''ada''), (''source'', ''web''), (''ref'', ''f1'')]\<rparr>
      # rest"
    by blast
  from t2 have b: "\<exists>rest. trace (snd (submit (resolving 200 [])
              (configured (exampleProps\<lparr>props_data := Some (Str ''web'')\<rparr>)) exampleState)) =
      trace exampleState @ [RenderErrors [], Disable, OnSubmit] @
      SubmitForm \<lparr>req_id = cfg_id (configured (exampleProps\<lparr>props_data := Some (Str ''web'')\<rparr>)),
                  req_endpoint =
                    cfg_endpoint (configured (exampleProps\<lparr>props_data := Some (Str ''web'')\<rparr>)),
                  req_data = [(''email'', ''ada'')]\<rparr>
      # rest"
    by blast
  from a b show ?thesis
    by (simp add: configured_def assign_def defaults_def override_def exampleProps_def
          exampleState_def)
qed

section \<open>Properties of the binding\<close>

text \<open>
  Claim C6. When the options have no \<^verbatim>\<open>id\<close>, or no \<^verbatim>\<open>element\<close>, or an
  \<^verbatim>\<open>element\<close> selector that resolves to no element, \<^verbatim>\<open>init\<close> throws an error, and it
  does so with the world and the trace as they were: no submit listener has been
  attached, the enable hook and the init hook have not been called.
\<close>

theorem init_configuration_error:
  assumes "props_id props = None \<or> props_element props = None \<or>
           (\<exists>sel. props_element props = Some (SelectorArg sel) \<and>
                  querySelector (world s) sel = Inr None)"
  shows "\<exists>msg. init tc client props s = (Some (Error msg), s)"
  using assms
  by (auto simp: init_def getFormElement_def split: option.splits sum.splits)

theorem init_configuration_error_witness:
  "(\<exists>msg. init examplePlatform (resolving 200 [])
            (exampleProps\<lparr>props_element := Some (SelectorArg ''#nope'')\<rparr>) exampleState =
          (Some (Error msg), exampleState))
   \<and> (\<exists>msg. init examplePlatform (resolving 200 []) (exampleProps\<lparr>props_id := None\<rparr>) exampleState =
          (Some (Error msg), exampleState))"
proof -
  have a: "props_id (exampleProps\<lparr>props_element := Some (SelectorArg ''#nope'')\<rparr>) = None \<or>
      props_element (exampleProps\<lparr>props_element := Some (SelectorArg ''#nope'')\<rparr>) = None \<or>
      (\<exists>sel. props_element (exampleProps\<lparr>props_element := Some (SelectorArg ''#nope'')\<rparr>) =
               Some (SelectorArg sel) \<and>
             querySelector (world exampleState) sel = Inr None)"
    by (simp add: exampleState_def exampleWorld_def)
  have b: "props_id (exampleProps\<lparr>props_id := None\<rparr>) = None \<or>
      props_element (exampleProps\<lparr>props_id := None\<rparr>) = None \<or>
      (\<exists>sel. props_element (exampleProps\<lparr>props_id := None\<rparr>) = Some (SelectorArg sel) \<and>
             querySelector (world exampleState) sel = Inr None)"
    by simp
  from init_configuration_error [OF a] init_configuration_error [OF b]
  show ?thesis by blast
qed




end
